theory Spec2Isabelle
  imports Complex_Main "HOL-Library.Sublist"
begin

section \<open>Company intelligence workflow: data model\<close>

text \<open>
  The workflow of \<^verbatim>\<open>src/orchestrator/supervisor.py\<close> threads one dictionary, the
  \<^verbatim>\<open>AgentState\<close>, through three nodes. Text is \<open>string\<close>; characters beyond ASCII
  that occur in the templates are written as their UTF-8 bytes.

  A news article is a dictionary that the code reads only through
  \<^verbatim>\<open>article.get(key, default)\<close>: a field that is \<open>None\<close> stands for a missing key.
  A sentiment score is a Python float; it is kept as the exact rational value of that
  float, on which the comparisons of the source are exact.
\<close>

record article =
  headline :: "string option"
  source :: "string option"
  category :: "string option"
  sentiment_score :: "rat option"

text \<open>
  The stock dictionary is a \<^verbatim>\<open>Dict[str, Any]\<close>. It is kept with its keys and with
  dynamically typed values, \<^verbatim>\<open>None\<close>, integers, floats and strings, because
  \<^verbatim>\<open>format_stock_for_summary\<close> compares some of them with numbers, which raises
  \<^verbatim>\<open>TypeError\<close> for \<^verbatim>\<open>None\<close> and for a string. A float is its exact rational value
  (\<^verbatim>\<open>nan\<close> and the infinities are outside the model).
\<close>

datatype pyval = PNone | PInt int | PFloat rat | PStr string

type_synonym stock = "(string \<times> pyval) list"

text \<open>
  What a run can raise: the \<^verbatim>\<open>TypeError\<close> of such a comparison, and the errors of the
  graph runtime.
\<close>

datatype run_error = TypeError | GraphRecursionError | UnknownNode string | UnknownBranch string

datatype message = AIMessage string

text \<open>
  A node returns a partial update, a dictionary holding some of the keys of the state.
  In an update a field that is \<open>None\<close> is a key the dictionary does not hold, and the
  list \<open>messages\<close> holds the entries to append (none when it is empty). The state has
  the same keys and the company name, which is set once at the start; there \<open>None\<close>
  is a key that is missing or holds \<^verbatim>\<open>None\<close>. The nodes read these keys with
  \<^verbatim>\<open>state.get\<close> and only test the value for truthiness or hand it to a collaborator,
  and a missing key, \<^verbatim>\<open>None\<close> and the default of \<^verbatim>\<open>get\<close> are all false.
\<close>

record update =
  news_data :: "article list option"
  stock_data :: "stock option"
  analysis :: "string option"
  risk_factors :: "string list option"
  final_report :: "string option"
  current_agent :: "string option"
  error :: "string option"
  messages :: "message list"

record agent_state = update +
  company_name :: string

definition empty_update :: update where
  "empty_update =
     \<lparr>news_data = None, stock_data = None, analysis = None, risk_factors = None,
      final_report = None, current_agent = None, error = None, messages = []\<rparr>"

section \<open>The router\<close>

text \<open>
  \<^verbatim>\<open>if error:\<close> is Python truthiness: \<^verbatim>\<open>None\<close> and the empty string are both false.
\<close>

definition truthy_str :: "string option \<Rightarrow> bool" where
  "truthy_str v = (case v of None \<Rightarrow> False | Some t \<Rightarrow> t \<noteq> [])"

definition should_continue :: "agent_state \<Rightarrow> string" where
  "should_continue state =
     (let agent = (case current_agent state of None \<Rightarrow> '''' | Some a \<Rightarrow> a);
          err = error state
      in if truthy_str err then ''end''
         else if agent = ''data_collector'' then ''analyst''
         else if agent = ''analyst'' then ''report_generator''
         else ''end'')"

section \<open>Text helpers\<close>

definition nl :: string where
  "nl = [CHR 0x0A]"

text \<open>\<^verbatim>\<open>sep.join(parts)\<close>.\<close>

fun join :: "string \<Rightarrow> string list \<Rightarrow> string" where
  "join sep [] = []"
| "join sep [x] = x"
| "join sep (x # y # ys) = x @ sep @ join sep (y # ys)"

text \<open>
  The case mappings of ASCII text. On a string of ASCII characters \<^verbatim>\<open>str.upper\<close> maps
  \<open>a-z\<close> to \<open>A-Z\<close> and keeps every other character, and \<^verbatim>\<open>str.title\<close> puts the first
  letter of each run of letters in upper case and the other letters in lower case.
\<close>

definition is_lower :: "char \<Rightarrow> bool" where
  "is_lower c = (97 \<le> (of_char c :: nat) \<and> (of_char c :: nat) \<le> 122)"

definition is_upper :: "char \<Rightarrow> bool" where
  "is_upper c = (65 \<le> (of_char c :: nat) \<and> (of_char c :: nat) \<le> 90)"

definition upper_char :: "char \<Rightarrow> char" where
  "upper_char c = (if is_lower c then char_of ((of_char c :: nat) - 32) else c)"

definition lower_char :: "char \<Rightarrow> char" where
  "lower_char c = (if is_upper c then char_of ((of_char c :: nat) + 32) else c)"

definition is_ascii :: "string \<Rightarrow> bool" where
  "is_ascii t = list_all (\<lambda>c. (of_char c :: nat) < 128) t"

definition ascii_upper :: "string \<Rightarrow> string" where
  "ascii_upper t = map upper_char t"

fun title_from :: "bool \<Rightarrow> string \<Rightarrow> string" where
  "title_from prev [] = []"
| "title_from prev (c # cs) =
     (if is_lower c then (if prev then c else upper_char c) # title_from True cs
      else if is_upper c then (if prev then lower_char c else c) # title_from True cs
      else c # title_from False cs)"

definition ascii_title :: "string \<Rightarrow> string" where
  "ascii_title t = title_from False t"

text \<open>\<^verbatim>\<open>str(n)\<close> for a length and for an integer.\<close>

definition digit_char :: "nat \<Rightarrow> char" where
  "digit_char d = char_of (48 + d)"

function str_nat :: "nat \<Rightarrow> string" where
  "str_nat n = (if n < 10 then [digit_char n] else str_nat (n div 10) @ [digit_char (n mod 10)])"
  by pat_completeness auto
termination
  by (relation "measure id") auto

declare str_nat.simps [simp del]

definition str_int :: "int \<Rightarrow> string" where
  "str_int i = (if i < 0 then ''-'' @ str_nat (nat (- i)) else str_nat (nat i))"

section \<open>The collaborators of the nodes\<close>

text \<open>
  \<^verbatim>\<open>collect_data_directly\<close> and \<^verbatim>\<open>analyze_data_directly\<close> call tools that draw random
  numbers and read the clock and the network. The nodes use them as black boxes, so they
  are parameters here: a collaborator either returns its result or raises an exception
  \<open>e\<close>, which is \<open>Inl (str(e))\<close>. \<^verbatim>\<open>analyze_data_directly\<close> returns the analysis, the
  risk factors and the risk level.

  Parameters too are the parts of Python that have no counterpart in HOL: the text of a
  float (\<^verbatim>\<open>str(x)\<close>, the format \<^verbatim>\<open>.2f\<close> and the format \<^verbatim>\<open>,.0f\<close>, each as a function of
  the exact value formatted), and the case mappings of Unicode on a string that holds a
  character beyond ASCII.
\<close>

record collaborators =
  collect_data_directly :: "string \<Rightarrow> string + article list \<times> stock"
  analyze_data_directly ::
    "string \<Rightarrow> article list option \<Rightarrow> stock option \<Rightarrow> string + string \<times> string list \<times> string"
  float_str :: "rat \<Rightarrow> string"
  float_fixed2 :: "rat \<Rightarrow> string"
  float_grouped0 :: "rat \<Rightarrow> string"
  unicode_upper :: "string \<Rightarrow> string"
  unicode_title :: "string \<Rightarrow> string"

text \<open>\<^verbatim>\<open>str.upper\<close> and \<^verbatim>\<open>str.title\<close>.\<close>

definition upper :: "collaborators \<Rightarrow> string \<Rightarrow> string" where
  "upper env t = (if is_ascii t then ascii_upper t else unicode_upper env t)"

definition title :: "collaborators \<Rightarrow> string \<Rightarrow> string" where
  "title env t = (if is_ascii t then ascii_title t else unicode_title env t)"

section \<open>Formatting the stock data\<close>

text \<open>
  \<^verbatim>\<open>format_stock_for_summary\<close> of \<^verbatim>\<open>tools/summary_generator.py\<close>. \<open>py_str\<close> is the text
  an f-string gives a value. A dictionary is the list of the items it was built from,
  where a later item replaces an earlier one with the same key: \<open>dict_lookup\<close> finds
  the value under a key, \<open>dict_get\<close> is \<^verbatim>\<open>d.get(key, default)\<close>. \<open>py_gt\<close> and
  \<open>py_ge\<close> are \<^verbatim>\<open>v > n\<close> and \<^verbatim>\<open>v >= n\<close> for an integer literal \<open>n\<close>: a number is
  compared by its value, anything else raises \<^verbatim>\<open>TypeError\<close>.
\<close>

definition py_str :: "collaborators \<Rightarrow> pyval \<Rightarrow> string" where
  "py_str env v =
     (case v of PNone \<Rightarrow> ''None'' | PInt i \<Rightarrow> str_int i | PFloat x \<Rightarrow> float_str env x
      | PStr t \<Rightarrow> t)"

definition dict_lookup :: "stock \<Rightarrow> string \<Rightarrow> pyval option" where
  "dict_lookup d key = map_of (rev d) key"

definition dict_get :: "stock \<Rightarrow> string \<Rightarrow> pyval \<Rightarrow> pyval" where
  "dict_get d key dflt = (case dict_lookup d key of None \<Rightarrow> dflt | Some v \<Rightarrow> v)"

definition py_gt :: "pyval \<Rightarrow> int \<Rightarrow> run_error + bool" where
  "py_gt v n =
     (case v of PInt i \<Rightarrow> Inr (i > n) | PFloat x \<Rightarrow> Inr (x > of_int n) | PNone \<Rightarrow> Inl TypeError
      | PStr t \<Rightarrow> Inl TypeError)"

definition py_ge :: "pyval \<Rightarrow> int \<Rightarrow> run_error + bool" where
  "py_ge v n =
     (case v of PInt i \<Rightarrow> Inr (i \<ge> n) | PFloat x \<Rightarrow> Inr (x \<ge> of_int n) | PNone \<Rightarrow> Inl TypeError
      | PStr t \<Rightarrow> Inl TypeError)"

text \<open>
  \<open>py_num\<close> is the value of a number; \<^verbatim>\<open>cap/n\<close> is reached only after \<^verbatim>\<open>cap >= n\<close>
  has returned, so only for a number, and the rounding of the quotient to a float is
  left to \<open>float_fixed2\<close>.
\<close>

definition py_num :: "pyval \<Rightarrow> rat" where
  "py_num v = (case v of PInt i \<Rightarrow> of_int i | PFloat x \<Rightarrow> x | PNone \<Rightarrow> 0 | PStr t \<Rightarrow> 0)"

definition format_market_cap :: "collaborators \<Rightarrow> pyval \<Rightarrow> run_error + string" where
  "format_market_cap env cap =
     (if cap = PNone then Inr ''N/A''
      else case py_ge cap 1000000000000 of
        Inl e \<Rightarrow> Inl e
      | Inr True \<Rightarrow> Inr (''$'' @ float_fixed2 env (py_num cap / 1000000000000) @ ''T'')
      | Inr False \<Rightarrow>
          (case py_ge cap 1000000000 of
             Inl e \<Rightarrow> Inl e
           | Inr True \<Rightarrow> Inr (''$'' @ float_fixed2 env (py_num cap / 1000000000) @ ''B'')
           | Inr False \<Rightarrow>
               (case py_ge cap 1000000 of
                  Inl e \<Rightarrow> Inl e
                | Inr True \<Rightarrow> Inr (''$'' @ float_fixed2 env (py_num cap / 1000000) @ ''M'')
                | Inr False \<Rightarrow> Inr (''$'' @ float_grouped0 env (py_num cap)))))"

definition stock_summary_text ::
    "collaborators \<Rightarrow> stock \<Rightarrow> string \<Rightarrow> string \<Rightarrow> string \<Rightarrow> string" where
  "stock_summary_text env d daily_trend monthly_trend market_cap =
     ''Stock Performance Summary:'' @ nl @
     ''- Current Price: $'' @ py_str env (dict_get d ''current_price'' (PStr ''N/A'')) @
       '' '' @ py_str env (dict_get d ''currency'' (PStr ''USD'')) @ nl @
     ''- Daily Change: '' @ py_str env (dict_get d ''daily_change_percent'' (PStr ''N/A'')) @
       ''% ('' @ daily_trend @ '')'' @ nl @
     ''- Monthly Change: '' @ py_str env (dict_get d ''monthly_change_percent'' (PStr ''N/A'')) @
       ''% ('' @ monthly_trend @ '')'' @ nl @
     ''- 52-Week Range: $'' @ py_str env (dict_get d ''52_week_low'' (PStr ''N/A'')) @
       '' - $'' @ py_str env (dict_get d ''52_week_high'' (PStr ''N/A'')) @ nl @
     ''- Market Cap: '' @ market_cap @ nl @
     ''- P/E Ratio: '' @ py_str env (dict_get d ''pe_ratio'' (PStr ''N/A'')) @ nl @
     ''- Sector: '' @ py_str env (dict_get d ''sector'' (PStr ''N/A''))"

text \<open>
  The two trends are computed first, then the f-string, which calls
  \<^verbatim>\<open>format_market_cap\<close>; \<open>stock_summary_text\<close> is the f-string with these three
  results in place.
\<close>

definition format_stock_for_summary :: "collaborators \<Rightarrow> stock option \<Rightarrow> run_error + string" where
  "format_stock_for_summary env stock_arg =
     (case stock_arg of
        None \<Rightarrow> Inr ''Stock data unavailable.''
      | Some d \<Rightarrow>
          (if d = [] \<or> ''error'' \<in> fst ` set d then Inr ''Stock data unavailable.''
           else case py_gt (dict_get d ''daily_change_percent'' (PInt 0)) 0 of
             Inl e \<Rightarrow> Inl e
           | Inr daily_up \<Rightarrow>
               (case py_gt (dict_get d ''monthly_change_percent'' (PInt 0)) 0 of
                  Inl e \<Rightarrow> Inl e
                | Inr monthly_up \<Rightarrow>
                    (case format_market_cap env (dict_get d ''market_cap'' PNone) of
                       Inl e \<Rightarrow> Inl e
                     | Inr market_cap \<Rightarrow>
                         Inr (stock_summary_text env d
                                (if daily_up then ''up'' else ''down'')
                                (if monthly_up then ''up'' else ''down'')
                                market_cap)))))"

section \<open>The nodes\<close>

definition data_collector_node :: "collaborators \<Rightarrow> agent_state \<Rightarrow> update" where
  "data_collector_node env state =
     (let name = company_name state
      in case collect_data_directly env name of
           Inr (news, stock) \<Rightarrow>
             (let news_count = (if news \<noteq> [] then length news else 0)
              in empty_update
                   \<lparr>news_data := Some news,
                    stock_data := Some stock,
                    current_agent := Some ''data_collector'',
                    messages := [AIMessage (''Collected '' @ str_nat news_count @
                       '' news articles and stock data for '' @ name)]\<rparr>)
         | Inl e \<Rightarrow>
             empty_update
               \<lparr>error := Some e,
                current_agent := Some ''data_collector'',
                messages := [AIMessage (''Error collecting data: '' @ e)]\<rparr>)"

definition analyst_node :: "collaborators \<Rightarrow> agent_state \<Rightarrow> update" where
  "analyst_node env state =
     (let name = company_name state;
          news = news_data state;
          stock = stock_data state
      in case analyze_data_directly env name news stock of
           Inr (summary, risks, risk_level) \<Rightarrow>
             (let risk_count = length risks
              in empty_update
                   \<lparr>analysis := Some summary,
                    risk_factors := Some risks,
                    current_agent := Some ''analyst'',
                    messages := [AIMessage (''Completed analysis with '' @ str_nat risk_count @
                       '' risk factors identified'')]\<rparr>)
         | Inl e \<Rightarrow>
             empty_update
               \<lparr>error := Some e,
                current_agent := Some ''analyst'',
                messages := [AIMessage (''Error analyzing data: '' @ e)]\<rparr>)"

text \<open>The templates of the report. \<open>rule60\<close> is \<^verbatim>\<open>'='*60\<close>.\<close>

definition rule60 :: string where
  "rule60 = replicate 60 (CHR ''='')"

definition header_section :: "collaborators \<Rightarrow> string \<Rightarrow> string" where
  "header_section env name =
     nl @ rule60 @ nl @ ''COMPANY INTELLIGENCE REPORT: '' @ upper env name @ nl @ rule60 @ nl"

definition stock_section :: "string \<Rightarrow> string" where
  "stock_section stock_summary =
     nl @ ''## '' @ [CHR 0xF0, CHR 0x9F, CHR 0x93, CHR 0x88] @ '' Stock Performance'' @ nl @
     stock_summary @ nl"

text \<open>0.2 as a float is the rational below; the default score is the integer 0.\<close>

definition float_0_2 :: rat where
  "float_0_2 = 3602879701896397 / 18014398509481984"

definition sentiment :: "article \<Rightarrow> string" where
  "sentiment a =
     (let score = (case sentiment_score a of None \<Rightarrow> 0 | Some x \<Rightarrow> x)
      in if score > float_0_2 then [CHR 0xF0, CHR 0x9F, CHR 0x9F, CHR 0xA2]
         else if score < - float_0_2 then [CHR 0xF0, CHR 0x9F, CHR 0x94, CHR 0xB4]
         else [CHR 0xF0, CHR 0x9F, CHR 0x9F, CHR 0xA1])"

definition article_lines :: "collaborators \<Rightarrow> article \<Rightarrow> string list" where
  "article_lines env a =
     [''  '' @ sentiment a @ '' '' @ (case headline a of None \<Rightarrow> ''N/A'' | Some h \<Rightarrow> h),
      ''     Source: '' @ (case source a of None \<Rightarrow> ''Unknown'' | Some s \<Rightarrow> s) @ '' | '' @
        title env (case category a of None \<Rightarrow> ''general'' | Some c \<Rightarrow> c)]"

definition news_section :: "collaborators \<Rightarrow> article list \<Rightarrow> string" where
  "news_section env news =
     (let news_lines = concat (map (article_lines env) (take 5 news))
      in nl @ ''## '' @ [CHR 0xF0, CHR 0x9F, CHR 0x93, CHR 0xB0] @ '' Recent News Headlines'' @ nl @
         join nl news_lines @ nl)"

definition analysis_section :: "string \<Rightarrow> string" where
  "analysis_section summary =
     nl @ ''## '' @ [CHR 0xF0, CHR 0x9F, CHR 0x92, CHR 0xA1] @ '' Market Analysis'' @ nl @
     summary @ nl"

definition warning_sign :: string where
  "warning_sign = [CHR 0xE2, CHR 0x9A, CHR 0xA0, CHR 0xEF, CHR 0xB8, CHR 0x8F]"

definition risk_section :: "string list \<Rightarrow> string" where
  "risk_section risks =
     (let risk_lines = map (\<lambda>risk. ''  '' @ warning_sign @ '' '' @ risk) risks
      in nl @ ''## '' @ warning_sign @ '' Risk Factors'' @ nl @ join nl risk_lines @ nl)"

definition footer_section :: string where
  "footer_section =
     nl @ rule60 @ nl @
     ''DISCLAIMER: This report is generated for informational purposes '' @ nl @
     ''only and should not be considered as financial advice. Always '' @ nl @
     ''conduct your own research and consult with qualified financial '' @ nl @
     ''professionals before making investment decisions.'' @ nl @
     rule60 @ nl"

text \<open>
  The conditions under which the report takes a block, as the source tests them:
  \<^verbatim>\<open>stock_data and "error" not in stock_data\<close>, and the truthiness of the three other
  fields (\<^verbatim>\<open>None\<close>, the empty list and the empty string are false).
\<close>

definition stock_usable :: "stock option \<Rightarrow> bool" where
  "stock_usable v =
     (case v of None \<Rightarrow> False | Some d \<Rightarrow> d \<noteq> [] \<and> ''error'' \<notin> fst ` set d)"

definition truthy_list :: "'a list option \<Rightarrow> bool" where
  "truthy_list v = (case v of None \<Rightarrow> False | Some xs \<Rightarrow> xs \<noteq> [])"

text \<open>
  \<open>report_sections\<close> is the list the node builds by successive \<^verbatim>\<open>append\<close> calls. The
  node has no \<^verbatim>\<open>try\<close>: when \<^verbatim>\<open>format_stock_for_summary\<close> raises, the node raises.
\<close>

definition report_sections :: "collaborators \<Rightarrow> agent_state \<Rightarrow> run_error + string list" where
  "report_sections env state =
     (let name = company_name state;
          news = news_data state;
          stock = stock_data state;
          summary = analysis state;
          risks = risk_factors state;
          sections0 = [header_section env name]
      in case (if stock_usable stock
               then (case format_stock_for_summary env stock of
                       Inl e \<Rightarrow> Inl e
                     | Inr stock_summary \<Rightarrow> Inr (sections0 @ [stock_section stock_summary]))
               else Inr sections0) of
           Inl e \<Rightarrow> Inl e
         | Inr sections1 \<Rightarrow>
             (let sections2 = (if truthy_list news
                               then sections1 @ [news_section env (the news)]
                               else sections1);
                  sections3 = (if truthy_str summary
                               then sections2 @ [analysis_section (the summary)]
                               else sections2);
                  sections4 = (if truthy_list risks
                               then sections3 @ [risk_section (the risks)]
                               else sections3)
              in Inr (sections4 @ [footer_section])))"

definition report_generator_node :: "collaborators \<Rightarrow> agent_state \<Rightarrow> run_error + update" where
  "report_generator_node env state =
     (case report_sections env state of
        Inl e \<Rightarrow> Inl e
      | Inr sections \<Rightarrow>
          (let report = join nl sections
           in Inr (empty_update
                \<lparr>final_report := Some report,
                 current_agent := Some ''report_generator'',
                 messages := [AIMessage ''Final report generated'']\<rparr>)))"

section \<open>The state and its merge\<close>

text \<open>
  Modelled from the spec: \<^verbatim>\<open>create_initial_state\<close> is imported from
  \<^verbatim>\<open>state/shared_state.py\<close>, which is not among the sources. By section 4.4 of the
  specification a run starts from a fresh state seeded with the subject: every other
  field is null, the stage marker is none and the event log is empty.
\<close>

definition create_initial_state :: "string \<Rightarrow> agent_state" where
  "create_initial_state name =
     \<lparr>news_data = None, stock_data = None, analysis = None, risk_factors = None,
      final_report = None, current_agent = None, error = None, messages = [],
      company_name = name\<rparr>"

text \<open>
  Modelled from the spec: the replace policy of section 4.1 on one field. A key the
  partial update holds overwrites the old value, a key it does not hold keeps it.
\<close>

definition replace_field :: "'a option \<Rightarrow> 'a option \<Rightarrow> 'a option" where
  "replace_field old new = (case new of None \<Rightarrow> old | Some v \<Rightarrow> Some v)"

text \<open>
  Modelled from the spec: the merge policies of \<^verbatim>\<open>AgentState\<close> are declared in the
  same missing file. By sections 3 and 4.1 of the specification a key present in the
  partial update overwrites the old value when its policy is replace, the new entries
  are concatenated to the end of the existing sequence when its policy is append (the
  event log \<open>messages\<close>), and a key absent from the partial update is left untouched.
  The current value may be a state or itself a partial update.
\<close>

definition merge :: "'a update_scheme \<Rightarrow> update \<Rightarrow> 'a update_scheme" where
  "merge cur partial =
     cur\<lparr>news_data := replace_field (news_data cur) (news_data partial),
         stock_data := replace_field (stock_data cur) (stock_data partial),
         analysis := replace_field (analysis cur) (analysis partial),
         risk_factors := replace_field (risk_factors cur) (risk_factors partial),
         final_report := replace_field (final_report cur) (final_report partial),
         current_agent := replace_field (current_agent cur) (current_agent partial),
         error := replace_field (error cur) (error partial),
         messages := messages cur @ messages partial\<rparr>"

section \<open>The graph and its runtime\<close>

text \<open>
  \<^verbatim>\<open>create_intelligence_workflow\<close> builds a LangGraph \<^verbatim>\<open>StateGraph\<close>: named nodes, an
  entry point, and for each node either an edge to a fixed target or conditional edges,
  a routing function with a dictionary from its results to targets. A node is a
  callable that returns an update or raises; the collector and the analyst catch every
  exception themselves and always return.
\<close>

datatype target = Node string | END

datatype edge = Conditional "agent_state \<Rightarrow> string" "(string \<times> target) list" | Direct target

record workflow =
  nodes :: "(string \<times> (agent_state \<Rightarrow> run_error + update)) list"
  entry_point :: "string option"
  edges :: "(string \<times> edge) list"

definition StateGraph :: workflow where
  "StateGraph = \<lparr>nodes = [], entry_point = None, edges = []\<rparr>"

definition add_node ::
    "string \<Rightarrow> (agent_state \<Rightarrow> run_error + update) \<Rightarrow> workflow \<Rightarrow> workflow" where
  "add_node name action graph = graph\<lparr>nodes := nodes graph @ [(name, action)]\<rparr>"

definition set_entry_point :: "string \<Rightarrow> workflow \<Rightarrow> workflow" where
  "set_entry_point name graph = graph\<lparr>entry_point := Some name\<rparr>"

definition add_conditional_edges ::
    "string \<Rightarrow> (agent_state \<Rightarrow> string) \<Rightarrow> (string \<times> target) list \<Rightarrow> workflow \<Rightarrow> workflow" where
  "add_conditional_edges name path path_map graph =
     graph\<lparr>edges := edges graph @ [(name, Conditional path path_map)]\<rparr>"

definition add_edge :: "string \<Rightarrow> target \<Rightarrow> workflow \<Rightarrow> workflow" where
  "add_edge name t graph = graph\<lparr>edges := edges graph @ [(name, Direct t)]\<rparr>"

definition create_intelligence_workflow :: "collaborators \<Rightarrow> workflow" where
  "create_intelligence_workflow env =
     (let g0 = StateGraph;
          g1 = add_node ''data_collector'' (\<lambda>state. Inr (data_collector_node env state)) g0;
          g2 = add_node ''analyst'' (\<lambda>state. Inr (analyst_node env state)) g1;
          g3 = add_node ''report_generator'' (report_generator_node env) g2;
          g4 = set_entry_point ''data_collector'' g3;
          g5 = add_conditional_edges ''data_collector'' should_continue
                  [(''analyst'', Node ''analyst''), (''end'', END)] g4;
          g6 = add_conditional_edges ''analyst'' should_continue
                  [(''report_generator'', Node ''report_generator''), (''end'', END)] g5;
          g7 = add_edge ''report_generator'' END g6
      in g7)"

text \<open>
  The runtime is the library's, not the repository's. \<^verbatim>\<open>app.stream(initial_state)\<close>
  of a compiled state graph runs the node at the entry point on the state, merges the
  update the node returns into the state, follows the node's edge on the merged state,
  and so on until \<^verbatim>\<open>END\<close>. After each node it yields a dictionary with one entry, from
  the node's name to the update that node returned (the stream mode \<^verbatim>\<open>"updates"\<close>, the
  default of a compiled state graph); \<^verbatim>\<open>run_intelligence_workflow\<close> reads that shape
  when it iterates \<^verbatim>\<open>final_state.items()\<close> as \<^verbatim>\<open>node_name, node_state\<close>. The run
  raises what a node raises, and fails when a name is unknown or after
  \<open>recursion_limit\<close> steps.

  Each call of \<^verbatim>\<open>create_intelligence_workflow\<close> makes a new, empty \<^verbatim>\<open>MemorySaver\<close>, so
  no run finds a checkpoint under its thread identifier and the identifier has no
  effect on the run.
\<close>

definition next_target :: "workflow \<Rightarrow> string \<Rightarrow> agent_state \<Rightarrow> run_error + target" where
  "next_target graph name state =
     (case map_of (edges graph) name of
        None \<Rightarrow> Inr END
      | Some (Direct t) \<Rightarrow> Inr t
      | Some (Conditional path path_map) \<Rightarrow>
          (case map_of path_map (path state) of
             None \<Rightarrow> Inl (UnknownBranch (path state))
           | Some t \<Rightarrow> Inr t))"

type_synonym chunk = "(string \<times> update) list"

fun stream_from :: "workflow \<Rightarrow> nat \<Rightarrow> target \<Rightarrow> agent_state \<Rightarrow> run_error + chunk list" where
  "stream_from graph fuel END state = Inr []"
| "stream_from graph 0 (Node name) state = Inl GraphRecursionError"
| "stream_from graph (Suc fuel) (Node name) state =
     (case map_of (nodes graph) name of
        None \<Rightarrow> Inl (UnknownNode name)
      | Some action \<Rightarrow>
          (case action state of
             Inl e \<Rightarrow> Inl e
           | Inr partial \<Rightarrow>
               (let state' = merge state partial
                in case next_target graph name state' of
                     Inl e \<Rightarrow> Inl e
                   | Inr t \<Rightarrow>
                       (case stream_from graph fuel t state' of
                          Inl e \<Rightarrow> Inl e
                        | Inr chunks \<Rightarrow> Inr ([(name, partial)] # chunks)))))"

definition recursion_limit :: nat where
  "recursion_limit = 25"

definition stream :: "workflow \<Rightarrow> agent_state \<Rightarrow> run_error + chunk list" where
  "stream app initial_state =
     (case entry_point app of
        None \<Rightarrow> Inr []
      | Some name \<Rightarrow> stream_from app recursion_limit (Node name) initial_state)"

section \<open>The run entry point\<close>

text \<open>
  The loop keeps the last chunk of the stream; the function returns the value of the
  first entry of that chunk (every value is a dictionary), and \<^verbatim>\<open>{}\<close> when there is no
  chunk or the chunk is empty. An exception that leaves the stream leaves the function;
  it is \<open>Inl\<close>.
\<close>

definition run_intelligence_workflow ::
    "collaborators \<Rightarrow> string \<Rightarrow> string \<Rightarrow> run_error + update" where
  "run_intelligence_workflow env name thread_id =
     (let app = create_intelligence_workflow env;
          initial_state = create_initial_state name
      in case stream app initial_state of
           Inl e \<Rightarrow> Inl e
         | Inr chunks \<Rightarrow>
             (let final_state = foldl (\<lambda>_ state. Some state) None chunks
              in case final_state of
                   Some ((node_name, node_state) # _) \<Rightarrow> Inr node_state
                 | _ \<Rightarrow> Inr empty_update))"

section \<open>The command line\<close>

text \<open>
  \<^verbatim>\<open>main\<close> after argument parsing: what it prints first and the exit code of the
  process. \<^verbatim>\<open>sys.exit(1)\<close> is called only in the \<^verbatim>\<open>except\<close> branch, which an
  exception of the run reaches; a \<^verbatim>\<open>main\<close> that returns ends the process with code 0. The flag \<^verbatim>\<open>--verbose\<close> adds debug output and has
  no part in the exit code. \<^verbatim>\<open>result and "final_report" in result\<close> asks for a
  dictionary that is not empty and holds the key.
\<close>

datatype printed = Printed_report string | Printed_could_not_generate | Printed_error_running

definition update_is_empty :: "update \<Rightarrow> bool" where
  "update_is_empty u = (u = empty_update)"

definition main :: "collaborators \<Rightarrow> string \<Rightarrow> string \<Rightarrow> bool \<Rightarrow> printed \<times> int" where
  "main env company thread_id verbose =
     (case run_intelligence_workflow env company thread_id of
        Inr result \<Rightarrow>
          (if \<not> update_is_empty result \<and> final_report result \<noteq> None
           then (Printed_report (the (final_report result)), 0)
           else (Printed_could_not_generate, 0))
      | Inl e \<Rightarrow> (Printed_error_running, 1))"

section \<open>The transition table of the specification\<close>

text \<open>
  Section 4.3 of the specification gives the router as a table over the stage marker and
  the presence of an error: an initial or absent marker selects the first stage of the
  pipeline; a stage that is not the last selects the next stage when there is no error
  and Terminal when there is one; the last stage selects Terminal. A marker that names
  no stage counts as the absent one. Terminal is the router's \<^verbatim>\<open>"end"\<close>.
\<close>

definition spec_next :: "string option \<Rightarrow> bool \<Rightarrow> string" where
  "spec_next marker error_present =
     (if marker = Some ''report_generator'' then ''end''
      else if marker = Some ''data_collector''
        then (if error_present then ''end'' else ''analyst'')
      else if marker = Some ''analyst''
        then (if error_present then ''end'' else ''report_generator'')
      else ''data_collector'')"

section \<open>Concrete runs\<close>

text \<open>
  Collaborators for the subject \<^verbatim>\<open>"Acme Corp"\<close>: the collector returns one article and a
  stock dictionary of integers and strings, the analyst an analysis with one risk
  factor. \<open>collect_fails\<close> and \<open>analyze_fails\<close> make the collaborator raise an exception
  with the given message. No float is printed and no text beyond ASCII is mapped in
  these runs, so the five remaining parameters are never called; they return the
  empty string.
\<close>

definition acme_article :: article where
  "acme_article =
     \<lparr>headline = Some ''Acme Corp Shares Rally on Strong Market Performance'',
      source = Some ''Reuters'', category = Some ''market'', sentiment_score = Some (1 / 2)\<rparr>"

definition acme_stock :: stock where
  "acme_stock =
     [(''ticker'', PStr ''ACME''), (''current_price'', PInt 123), (''currency'', PStr ''USD''),
      (''daily_change_percent'', PInt 2), (''monthly_change_percent'', PInt (- 3)),
      (''52_week_high'', PInt 150), (''52_week_low'', PInt 100),
      (''market_cap'', PNone), (''pe_ratio'', PNone), (''sector'', PStr ''Technology'')]"

definition acme_env :: collaborators where
  "acme_env =
     \<lparr>collect_data_directly = (\<lambda>name. Inr ([acme_article], acme_stock)),
      analyze_data_directly =
        (\<lambda>name news stock. Inr (''Steady growth.'', [''Market volatility''], ''LOW'')),
      float_str = (\<lambda>x. []), float_fixed2 = (\<lambda>x. []), float_grouped0 = (\<lambda>x. []),
      unicode_upper = (\<lambda>t. []), unicode_title = (\<lambda>t. [])\<rparr>"

definition collect_fails :: "string \<Rightarrow> collaborators" where
  "collect_fails msg = acme_env\<lparr>collect_data_directly := (\<lambda>name. Inl msg)\<rparr>"

definition analyze_fails :: "string \<Rightarrow> collaborators" where
  "analyze_fails msg = acme_env\<lparr>analyze_data_directly := (\<lambda>name news stock. Inl msg)\<rparr>"

text \<open>
  The dictionary \<^verbatim>\<open>stock_data_tool\<close> returns when it fails, and a state that holds it.
\<close>

definition failed_stock :: stock where
  "failed_stock =
     [(''error'', PStr ''Failed to fetch stock data: timed out''),
      (''company_name'', PStr ''Acme Corp'')]"

definition failed_stock_state :: agent_state where
  "failed_stock_state = (create_initial_state ''Acme Corp'')\<lparr>stock_data := Some failed_stock\<rparr>"


text \<open>
  Collaborators whose collector returns that stock dictionary.
\<close>

definition null_change_env :: collaborators where
  "null_change_env =
     acme_env\<lparr>collect_data_directly :=
       (\<lambda>name. Inr ([acme_article], [(''daily_change_percent'', PNone)]))\<rparr>"

text \<open>
  The state a run for \<^verbatim>\<open>"Acme Corp"\<close> has reached when the report node starts (its event
  log left empty: the node does not read it).
\<close>

definition acme_state :: agent_state where
  "acme_state =
     (create_initial_state ''Acme Corp'')
       \<lparr>news_data := Some [acme_article], stock_data := Some acme_stock,
        analysis := Some ''Steady growth.'', risk_factors := Some [''Market volatility''],
        current_agent := Some ''analyst''\<rparr>"

section \<open>The run, node by node\<close>

text \<open>
  Each node writes its own name into the stage marker, so the router, consulted on the
  merged state, can only continue to the next node or end. This unfolds the stream of
  the workflow into its three possible shapes.
\<close>

lemma current_agent_data_collector_node:
  "current_agent (data_collector_node env s) = Some ''data_collector''"
  by (simp add: data_collector_node_def empty_update_def Let_def split: sum.splits prod.splits)

lemma current_agent_analyst_node:
  "current_agent (analyst_node env s) = Some ''analyst''"
  by (simp add: analyst_node_def empty_update_def Let_def split: sum.splits prod.splits)

lemma current_agent_merge:
  "current_agent (merge s u) = replace_field (current_agent s) (current_agent u)"
  by (simp add: merge_def)

lemma should_continue_after_data_collector:
  "current_agent s = Some ''data_collector'' \<Longrightarrow>
   should_continue s = (if truthy_str (error s) then ''end'' else ''analyst'')"
  by (simp add: should_continue_def)

lemma should_continue_after_analyst:
  "current_agent s = Some ''analyst'' \<Longrightarrow>
   should_continue s = (if truthy_str (error s) then ''end'' else ''report_generator'')"
  by (simp add: should_continue_def)

lemma workflow_nodes:
  "nodes (create_intelligence_workflow env) =
     [(''data_collector'', \<lambda>state. Inr (data_collector_node env state)),
      (''analyst'', \<lambda>state. Inr (analyst_node env state)),
      (''report_generator'', report_generator_node env)]"
  by (simp add: create_intelligence_workflow_def StateGraph_def add_node_def set_entry_point_def
      add_conditional_edges_def add_edge_def)

lemma workflow_entry_point:
  "entry_point (create_intelligence_workflow env) = Some ''data_collector''"
  by (simp add: create_intelligence_workflow_def StateGraph_def add_node_def set_entry_point_def
      add_conditional_edges_def add_edge_def)

lemma workflow_edges:
  "edges (create_intelligence_workflow env) =
     [(''data_collector'', Conditional should_continue [(''analyst'', Node ''analyst''), (''end'', END)]),
      (''analyst'', Conditional should_continue
         [(''report_generator'', Node ''report_generator''), (''end'', END)]),
      (''report_generator'', Direct END)]"
  by (simp add: create_intelligence_workflow_def StateGraph_def add_node_def set_entry_point_def
      add_conditional_edges_def add_edge_def)

lemma next_after_data_collector:
  "current_agent s = Some ''data_collector'' \<Longrightarrow>
   next_target (create_intelligence_workflow env) ''data_collector'' s =
     Inr (if truthy_str (error s) then END else Node ''analyst'')"
  by (simp add: next_target_def workflow_edges should_continue_after_data_collector)

lemma next_after_analyst:
  "current_agent s = Some ''analyst'' \<Longrightarrow>
   next_target (create_intelligence_workflow env) ''analyst'' s =
     Inr (if truthy_str (error s) then END else Node ''report_generator'')"
  by (simp add: next_target_def workflow_edges should_continue_after_analyst)

lemma next_after_report_generator:
  "next_target (create_intelligence_workflow env) ''report_generator'' s = Inr END"
  by (simp add: next_target_def workflow_edges)

lemma stream_from_step:
  "0 < fuel \<Longrightarrow>
   stream_from graph fuel (Node name) state =
     (case map_of (nodes graph) name of
        None \<Rightarrow> Inl (UnknownNode name)
      | Some action \<Rightarrow>
          (case action state of
             Inl e \<Rightarrow> Inl e
           | Inr partial \<Rightarrow>
               (case next_target graph name (merge state partial) of
                  Inl e \<Rightarrow> Inl e
                | Inr t \<Rightarrow>
                    (case stream_from graph (fuel - 1) t (merge state partial) of
                       Inl e \<Rightarrow> Inl e
                     | Inr chunks \<Rightarrow> Inr ([(name, partial)] # chunks)))))"
  by (cases fuel) (auto simp: Let_def split: option.splits sum.splits)

lemma stream_workflow:
  "stream (create_intelligence_workflow env) s0 =
     (let u1 = data_collector_node env s0; s1 = merge s0 u1
      in if truthy_str (error s1) then Inr [[(''data_collector'', u1)]]
         else (let u2 = analyst_node env s1; s2 = merge s1 u2
               in if truthy_str (error s2)
                  then Inr [[(''data_collector'', u1)], [(''analyst'', u2)]]
                  else (case report_generator_node env s2 of
                          Inl e \<Rightarrow> Inl e
                        | Inr u3 \<Rightarrow>
                            Inr [[(''data_collector'', u1)], [(''analyst'', u2)],
                                 [(''report_generator'', u3)]])))"
proof -
  have a1: "current_agent (merge s0 (data_collector_node env s0)) = Some ''data_collector''"
    by (simp add: current_agent_merge current_agent_data_collector_node replace_field_def)
  have a2: "current_agent (merge s (analyst_node env s)) = Some ''analyst''" for s
    by (simp add: current_agent_merge current_agent_analyst_node replace_field_def)
  show ?thesis
    by (simp add: stream_def workflow_entry_point recursion_limit_def stream_from_step
        workflow_nodes Let_def next_after_data_collector [OF a1]
        next_after_analyst [OF a2] next_after_report_generator split: sum.splits)
qed

lemma run_workflow:
  "run_intelligence_workflow env name thread_id =
     (let s0 = create_initial_state name; u1 = data_collector_node env s0; s1 = merge s0 u1
      in if truthy_str (error s1) then Inr u1
         else (let u2 = analyst_node env s1; s2 = merge s1 u2
               in if truthy_str (error s2) then Inr u2
                  else report_generator_node env s2))"
  by (simp add: run_intelligence_workflow_def stream_workflow Let_def split: sum.splits)

lemma company_name_initial: "company_name (create_initial_state name) = name"
  by (simp add: create_initial_state_def)

lemma error_initial: "error (create_initial_state name) = None"
  by (simp add: create_initial_state_def)

lemma error_merge: "error (merge s u) = replace_field (error s) (error u)"
  by (simp add: merge_def)

lemma company_name_merge: "company_name (merge s u) = company_name s"
  by (simp add: merge_def)

lemma data_collector_node_fail:
  "collect_data_directly env (company_name s) = Inl e \<Longrightarrow>
   data_collector_node env s =
     empty_update\<lparr>error := Some e, current_agent := Some ''data_collector'',
       messages := [AIMessage (''Error collecting data: '' @ e)]\<rparr>"
  by (simp add: data_collector_node_def)

lemma data_collector_node_ok:
  "collect_data_directly env (company_name s) = Inr (news, stock) \<Longrightarrow>
   data_collector_node env s =
     empty_update\<lparr>news_data := Some news, stock_data := Some stock,
       current_agent := Some ''data_collector'',
       messages := [AIMessage (''Collected '' @ str_nat (if news \<noteq> [] then length news else 0) @
          '' news articles and stock data for '' @ company_name s)]\<rparr>"
  by (simp add: data_collector_node_def)

lemma analyst_node_fail:
  "analyze_data_directly env (company_name s) (news_data s) (stock_data s) = Inl e \<Longrightarrow>
   analyst_node env s =
     empty_update\<lparr>error := Some e, current_agent := Some ''analyst'',
       messages := [AIMessage (''Error analyzing data: '' @ e)]\<rparr>"
  by (simp add: analyst_node_def)

lemma analyst_node_ok:
  "analyze_data_directly env (company_name s) (news_data s) (stock_data s) = Inr (a, r, l) \<Longrightarrow>
   analyst_node env s =
     empty_update\<lparr>analysis := Some a, risk_factors := Some r, current_agent := Some ''analyst'',
       messages := [AIMessage (''Completed analysis with '' @ str_nat (length r) @
          '' risk factors identified'')]\<rparr>"
  by (simp add: analyst_node_def)

section \<open>The router against the transition table\<close>

text \<open>
  Claim C3 as stated fails: on the initial state, whose stage marker is none, the router
  selects \<^verbatim>\<open>"end"\<close>, where the table of the specification selects the first stage. The
  first stage is chosen by the entry point of the graph; the router is consulted only
  after a node has run.
\<close>

theorem router_initial_marker_counterexample:
  "should_continue (create_initial_state ''Acme Corp'') = ''end'' \<and>
   spec_next (current_agent (create_initial_state ''Acme Corp''))
     (error (create_initial_state ''Acme Corp'') \<noteq> None) = ''data_collector'' \<and>
   should_continue (create_initial_state ''Acme Corp'') \<noteq>
     spec_next (current_agent (create_initial_state ''Acme Corp''))
       (error (create_initial_state ''Acme Corp'') \<noteq> None)"
  by (simp add: should_continue_def create_initial_state_def truthy_str_def spec_next_def)

text \<open>
  Claim C3, amended: whenever the error is not the empty string, the router agrees with
  the table of the specification on the three stage markers (next stage after a stage
  that is not the last when no error is present, Terminal when one is, Terminal after
  the last stage whatever the error), and selects Terminal for every other marker, the
  initial one included.
\<close>

theorem should_continue_table:
  "error s \<noteq> Some [] \<Longrightarrow>
   should_continue s =
     (if current_agent s \<in> {Some ''data_collector'', Some ''analyst'', Some ''report_generator''}
      then spec_next (current_agent s) (error s \<noteq> None)
      else ''end'')"
  by (cases "current_agent s"; cases "error s")
     (auto simp: should_continue_def spec_next_def truthy_str_def)

text \<open>Claim C3, witness: the amended table at the marker of the first stage, no error.\<close>

theorem should_continue_table_witness:
  "error ((create_initial_state ''Acme Corp'')\<lparr>current_agent := Some ''data_collector''\<rparr>) \<noteq> Some [] \<and>
   should_continue ((create_initial_state ''Acme Corp'')\<lparr>current_agent := Some ''data_collector''\<rparr>) = ''analyst''"
  using should_continue_table [of "(create_initial_state ''Acme Corp'')\<lparr>current_agent := Some ''data_collector''\<rparr>"]
  by (simp add: create_initial_state_def spec_next_def)

text \<open>
  Claim C4: the router reads the stage marker and the error and nothing else, and
  returns a value only. Two states that agree on these two fields get the same route; in
  particular two calls on the same state do.
\<close>

theorem should_continue_pure:
  "current_agent s = current_agent t \<Longrightarrow> error s = error t \<Longrightarrow>
   should_continue s = should_continue t"
  by (simp add: should_continue_def)

text \<open>
  Claim C4, witness: the state after a successful collection for one subject and a fresh
  state for another subject with the same marker are routed alike.
\<close>

theorem should_continue_pure_witness:
  "current_agent (merge (create_initial_state ''Acme Corp'') (data_collector_node acme_env (create_initial_state ''Acme Corp'')))
     = current_agent ((create_initial_state ''Other'')\<lparr>current_agent := Some ''data_collector''\<rparr>) \<and>
   error (merge (create_initial_state ''Acme Corp'') (data_collector_node acme_env (create_initial_state ''Acme Corp'')))
     = error ((create_initial_state ''Other'')\<lparr>current_agent := Some ''data_collector''\<rparr>) \<and>
   should_continue (merge (create_initial_state ''Acme Corp'') (data_collector_node acme_env (create_initial_state ''Acme Corp'')))
     = should_continue ((create_initial_state ''Other'')\<lparr>current_agent := Some ''data_collector''\<rparr>)"
  using should_continue_pure [of "merge (create_initial_state ''Acme Corp'') (data_collector_node acme_env (create_initial_state ''Acme Corp''))"
     "(create_initial_state ''Other'')\<lparr>current_agent := Some ''data_collector''\<rparr>"]
  by (simp add: create_initial_state_def merge_def replace_field_def data_collector_node_def
      acme_env_def empty_update_def)

section \<open>Merging the event log\<close>

text \<open>
  Claim C8: merging appends the entries of the partial update to the end of the event
  log, and merging two partial updates one after the other gives the same state as
  merging their batch, the second update merged into the first.
\<close>

theorem merge_append_associative:
  "messages (merge cur u) = messages cur @ messages u \<and>
   merge (merge cur u1) u2 = merge cur (merge u1 u2)"
  by (simp add: merge_def replace_field_def split: option.splits)

section \<open>Failure of the collection stage\<close>

text \<open>
  Claim C7 as stated fails: when the collection stage fails, the stage marker of the
  returned dictionary is \<^verbatim>\<open>"data_collector"\<close>, the name of the node, and not
  \<^verbatim>\<open>"collection"\<close>.
\<close>

theorem collection_failure_marker_counterexample:
  "run_intelligence_workflow (collect_fails ''boom'') ''Acme Corp'' ''default'' =
     Inr \<lparr>news_data = None, stock_data = None, analysis = None, risk_factors = None,
          final_report = None, current_agent = Some ''data_collector'', error = Some ''boom'',
          messages = [AIMessage ''Error collecting data: boom'']\<rparr> \<and>
   map_sum id current_agent
     (run_intelligence_workflow (collect_fails ''boom'') ''Acme Corp'' ''default'') \<noteq>
     Inr (Some ''collection'')"
  by (simp add: run_workflow Let_def data_collector_node_def collect_fails_def acme_env_def
      company_name_initial error_merge error_initial replace_field_def truthy_str_def
      empty_update_def)

text \<open>
  Claim C7, amended: when the collection stage fails with a message that is not empty,
  the run returns a dictionary whose stage marker is \<^verbatim>\<open>"data_collector"\<close>, whose error
  is that message, and which holds no analysis, no risk factors and no report.
\<close>

theorem collection_failure_returned:
  "collect_data_directly env name = Inl e \<Longrightarrow> e \<noteq> [] \<Longrightarrow>
   \<exists>result. run_intelligence_workflow env name thread_id = Inr result \<and>
     current_agent result = Some ''data_collector'' \<and> error result = Some e \<and>
     analysis result = None \<and> risk_factors result = None \<and> final_report result = None"
  by (simp add: run_workflow Let_def data_collector_node_fail company_name_initial
      error_merge error_initial replace_field_def truthy_str_def empty_update_def)

text \<open>Claim C7, witness: the collector raising \<^verbatim>\<open>Exception("boom")\<close>.\<close>

theorem collection_failure_returned_witness:
  "collect_data_directly (collect_fails ''boom'') ''Acme Corp'' = Inl ''boom'' \<and> ''boom'' \<noteq> [] \<and>
   (\<exists>result. run_intelligence_workflow (collect_fails ''boom'') ''Acme Corp'' ''default'' = Inr result \<and>
     current_agent result = Some ''data_collector'' \<and> error result = Some ''boom'' \<and>
     analysis result = None \<and> risk_factors result = None \<and> final_report result = None)"
  using collection_failure_returned [of "collect_fails ''boom''" "''Acme Corp''" "''boom''" "''default''"]
  by (simp add: collect_fails_def acme_env_def)

section \<open>The exit code of the command line\<close>

text \<open>
  Claim C5 at a run that produces no report: the collector raises
  \<^verbatim>\<open>Exception("boom")\<close>, \<^verbatim>\<open>main\<close> prints that it could not generate the report, and the
  process ends with code 0.
\<close>

theorem main_exit_code_without_report:
  "main (collect_fails ''boom'') ''Acme Corp'' ''default'' False = (Printed_could_not_generate, 0)"
  by (simp add: main_def run_workflow Let_def data_collector_node_def collect_fails_def acme_env_def
      company_name_initial error_merge error_initial replace_field_def truthy_str_def
      empty_update_def update_is_empty_def)

section \<open>The report node\<close>

text \<open>
  \<^verbatim>\<open>format_stock_for_summary\<close> returns exactly when the stock data is unusable (it then
  returns a fixed text) or the values it compares are numbers; otherwise it raises
  \<^verbatim>\<open>TypeError\<close>, and so does the report node.
\<close>

lemma join_Cons_nonempty: "ys \<noteq> [] \<Longrightarrow> join sep (x # ys) = x @ sep @ join sep ys"
  by (cases ys) simp_all

lemma join_snoc: "join sep (ms @ [f]) = concat (map (\<lambda>m. m @ sep) ms) @ f"
  by (induction ms) (simp_all add: join_Cons_nonempty)


lemma py_gt_error: "py_gt v n = Inl e \<Longrightarrow> e = TypeError"
  by (cases v) (auto simp: py_gt_def)

lemma py_ge_cases:
  "py_ge v n = (case v of PInt i \<Rightarrow> Inr (i \<ge> n) | PFloat x \<Rightarrow> Inr (x \<ge> of_int n)
                | PNone \<Rightarrow> Inl TypeError | PStr t \<Rightarrow> Inl TypeError)"
  by (simp add: py_ge_def)


lemma format_market_cap_error: "format_market_cap env cap = Inl e \<Longrightarrow> e = TypeError"
  by (cases cap) (auto simp: format_market_cap_def py_ge_def split: sum.splits bool.splits if_splits)



lemma format_unusable:
  "\<not> stock_usable v \<Longrightarrow> format_stock_for_summary env v = Inr ''Stock data unavailable.''"
  by (auto simp: stock_usable_def format_stock_for_summary_def split: option.splits)



lemma format_error: "format_stock_for_summary env v = Inl e \<Longrightarrow> e = TypeError \<and> stock_usable v"
proof -
  assume a: "format_stock_for_summary env v = Inl e"
  have u: "stock_usable v"
    using a format_unusable [of v env] by (cases "stock_usable v") auto
  from a have "e = TypeError"
    by (auto simp: format_stock_for_summary_def split: option.splits if_splits sum.splits
        dest: py_gt_error format_market_cap_error)
  with u show ?thesis by simp
qed

lemma report_node_returns:
  "format_stock_for_summary env (stock_data s) = Inr text \<Longrightarrow>
   report_generator_node env s =
     Inr \<lparr>news_data = None, stock_data = None, analysis = None, risk_factors = None,
          final_report = Some (join nl
            ([header_section env (company_name s)] @
             (if stock_usable (stock_data s) then [stock_section text] else []) @
             (if truthy_list (news_data s) then [news_section env (the (news_data s))] else []) @
             (if truthy_str (analysis s) then [analysis_section (the (analysis s))] else []) @
             (if truthy_list (risk_factors s) then [risk_section (the (risk_factors s))] else []) @
             [footer_section])),
          current_agent = Some ''report_generator'', error = None,
          messages = [AIMessage ''Final report generated'']\<rparr>"
  by (simp add: report_generator_node_def report_sections_def empty_update_def Let_def)

lemma report_node_raises:
  "format_stock_for_summary env (stock_data s) = Inl e \<Longrightarrow>
   report_generator_node env s = Inl TypeError"
  using format_error [of env "stock_data s" e]
  by (simp add: report_generator_node_def report_sections_def Let_def)

lemma rule60_literal:
  "rule60 = ''============================================================''"
  by code_simp

lemma header_section_literal:
  "header_section env name =
     ([CHR 0x0A] @
          ''============================================================'' @ [CHR 0x0A] @
          ''COMPANY INTELLIGENCE REPORT: '') @ upper env name @
     ([CHR 0x0A] @
          ''============================================================'' @ [CHR 0x0A])"
  by (simp add: header_section_def nl_def rule60_literal)


lemma report_text_shape:
  assumes "format_stock_for_summary env (stock_data s) = Inr text"
  shows "\<exists>u mid. report_generator_node env s = Inr u \<and>
     final_report u = Some (header_section env (company_name s) @ mid @ footer_section) \<and>
     error u = None"
proof -
  define middle where "middle =
     (if stock_usable (stock_data s) then [stock_section text] else []) @
     (if truthy_list (news_data s) then [news_section env (the (news_data s))] else []) @
     (if truthy_str (analysis s) then [analysis_section (the (analysis s))] else []) @
     (if truthy_list (risk_factors s) then [risk_section (the (risk_factors s))] else [])"
  have "join nl ([header_section env (company_name s)] @ middle @ [footer_section]) =
      header_section env (company_name s) @ (nl @ concat (map (\<lambda>m. m @ nl) middle)) @ footer_section"
    by (simp add: join_Cons_nonempty join_snoc)
  then show ?thesis
    using report_node_returns [OF assms] by (simp add: middle_def)
qed

lemma upper_acme: "upper env ''Acme Corp'' = ''ACME CORP''"
proof -
  have "is_ascii ''Acme Corp''" by code_simp
  moreover have "ascii_upper ''Acme Corp'' = ''ACME CORP''" by code_simp
  ultimately show ?thesis by (simp add: upper_def)
qed

lemma merge_initial_fields:
  "news_data (merge (create_initial_state name) u) = news_data u"
  "stock_data (merge (create_initial_state name) u) = stock_data u"
  "error (merge (create_initial_state name) u) = error u"
  "company_name (merge (create_initial_state name) u) = name"
  by (simp_all add: merge_def create_initial_state_def replace_field_def split: option.splits)

lemma run_success:
  assumes c: "collect_data_directly env name = Inr (news, stock)"
    and a: "analyze_data_directly env name (Some news) (Some stock) = Inr (summary, risks, level)"
  shows "\<exists>s. run_intelligence_workflow env name thread_id = report_generator_node env s \<and>
           company_name s = name \<and> news_data s = Some news \<and> stock_data s = Some stock \<and>
           analysis s = Some summary \<and> risk_factors s = Some risks"
proof -
  define s0 where "s0 = create_initial_state name"
  define u1 where "u1 = data_collector_node env s0"
  define s1 where "s1 = merge s0 u1"
  define u2 where "u2 = analyst_node env s1"
  define s2 where "s2 = merge s1 u2"
  have u1: "u1 = empty_update\<lparr>news_data := Some news, stock_data := Some stock,
       current_agent := Some ''data_collector'',
       messages := [AIMessage (''Collected '' @ str_nat (if news \<noteq> [] then length news else 0) @
          '' news articles and stock data for '' @ name)]\<rparr>"
    using data_collector_node_ok [of env s0 news stock] c
    by (simp add: u1_def s0_def company_name_initial)
  have s1: "company_name s1 = name" "news_data s1 = Some news" "stock_data s1 = Some stock"
    "error s1 = None"
    by (simp_all add: s1_def s0_def merge_initial_fields u1 empty_update_def)
  have u2: "u2 = empty_update\<lparr>analysis := Some summary, risk_factors := Some risks,
       current_agent := Some ''analyst'',
       messages := [AIMessage (''Completed analysis with '' @ str_nat (length risks) @
          '' risk factors identified'')]\<rparr>"
    using analyst_node_ok [of env s1 summary risks level] a
    by (simp add: u2_def s1)
  have s2: "company_name s2 = name" "news_data s2 = Some news" "stock_data s2 = Some stock"
    "analysis s2 = Some summary" "risk_factors s2 = Some risks" "error s2 = None"
    by (simp_all add: s2_def merge_def s1 u2 empty_update_def replace_field_def)
  have "run_intelligence_workflow env name thread_id = report_generator_node env s2"
    using s1(4) s2(6)
    by (simp add: run_workflow Let_def truthy_str_def s0_def [symmetric] u1_def [symmetric]
        s1_def [symmetric] u2_def [symmetric] s2_def [symmetric])
  with s2 show ?thesis by blast
qed

section \<open>The layout of the report\<close>

text \<open>
  Claim C6 as stated fails: a stock dictionary that is present and not empty but holds
  the key \<^verbatim>\<open>"error"\<close> (what \<^verbatim>\<open>stock_data_tool\<close> returns when it fails) gives a report
  without the stock block; here the report is the header and the footer only.
\<close>

theorem report_omits_failed_stock_counterexample:
  "stock_data failed_stock_state = Some failed_stock \<and> failed_stock \<noteq> [] \<and>
   map_sum id final_report (report_generator_node acme_env failed_stock_state) =
     Inr (Some (
        [CHR 0x0A] @ ''============================================================'' @
        [CHR 0x0A] @ ''COMPANY INTELLIGENCE REPORT: ACME CORP'' @ [CHR 0x0A] @
        ''============================================================'' @
        [CHR 0x0A, CHR 0x0A, CHR 0x0A] @
        ''============================================================'' @ [CHR 0x0A] @
        ''DISCLAIMER: This report is generated for informational purposes '' @ [CHR 0x0A] @
        ''only and should not be considered as financial advice. Always '' @ [CHR 0x0A] @
        ''conduct your own research and consult with qualified financial '' @ [CHR 0x0A] @
        ''professionals before making investment decisions.'' @ [CHR 0x0A] @
        ''============================================================'' @ [CHR 0x0A]))"
  by code_simp

text \<open>
  Claim C6, amended. Whenever the report node returns, its report is, joined by
  newlines and in this order: the header with the subject, the stock block, the news
  block, the analysis block, the risk block and the footer, where the stock block is
  left out exactly when the stock data is null, empty or holds the key \<^verbatim>\<open>"error"\<close>, and
  each of the three other blocks exactly when its field is null or empty. The run for
  \<^verbatim>\<open>"Acme Corp"\<close> with the collaborators above returns the report written out below,
  with all four blocks; with an error-marked stock dictionary, an empty news list, no
  analysis and an empty risk list the report is the header and the footer. For the
  subject \<^verbatim>\<open>"Acme Corp"\<close>, collaborators that do not fail and stock data that
  \<^verbatim>\<open>format_stock_for_summary\<close> can format, the run returns no error and a report whose
  header line is \<^verbatim>\<open>COMPANY INTELLIGENCE REPORT: ACME CORP\<close>.
\<close>

theorem report_layout:
  "(report_generator_node env s = Inr u \<longrightarrow>
      final_report u = Some (join [CHR 0x0A]
        ([header_section env (company_name s)] @
         (if stock_data s = None \<or> stock_data s = Some [] \<or>
             ''error'' \<in> fst ` set (the (stock_data s))
          then [] else [stock_section (projr (format_stock_for_summary env (stock_data s)))]) @
         (if news_data s = None \<or> news_data s = Some [] then []
          else [news_section env (the (news_data s))]) @
         (if analysis s = None \<or> analysis s = Some [] then []
          else [analysis_section (the (analysis s))]) @
         (if risk_factors s = None \<or> risk_factors s = Some [] then []
          else [risk_section (the (risk_factors s))]) @
         [footer_section]))) \<and>
   map_sum id final_report (run_intelligence_workflow acme_env ''Acme Corp'' ''default'') =
     Inr (Some (
        [CHR 0x0A] @ ''============================================================'' @
        [CHR 0x0A] @ ''COMPANY INTELLIGENCE REPORT: ACME CORP'' @ [CHR 0x0A] @
        ''============================================================'' @
        [CHR 0x0A, CHR 0x0A, CHR 0x0A] @ ''## '' @ [CHR 0xF0, CHR 0x9F, CHR 0x93, CHR 0x88] @
        '' Stock Performance'' @ [CHR 0x0A] @ ''Stock Performance Summary:'' @ [CHR 0x0A] @
        ''- Current Price: $123 USD'' @ [CHR 0x0A] @ ''- Daily Change: 2% (up)'' @ [CHR 0x0A] @
        ''- Monthly Change: -3% (down)'' @ [CHR 0x0A] @ ''- 52-Week Range: $100 - $150'' @
        [CHR 0x0A] @ ''- Market Cap: N/A'' @ [CHR 0x0A] @ ''- P/E Ratio: None'' @ [CHR 0x0A] @
        ''- Sector: Technology'' @ [CHR 0x0A, CHR 0x0A, CHR 0x0A] @ ''## '' @
        [CHR 0xF0, CHR 0x9F, CHR 0x93, CHR 0xB0] @ '' Recent News Headlines'' @ [CHR 0x0A] @
        ''  '' @ [CHR 0xF0, CHR 0x9F, CHR 0x9F, CHR 0xA2] @
        '' Acme Corp Shares Rally on Strong Market Performance'' @ [CHR 0x0A] @
        ''     Source: Reuters | Market'' @ [CHR 0x0A, CHR 0x0A, CHR 0x0A] @ ''## '' @
        [CHR 0xF0, CHR 0x9F, CHR 0x92, CHR 0xA1] @ '' Market Analysis'' @ [CHR 0x0A] @
        ''Steady growth.'' @ [CHR 0x0A, CHR 0x0A, CHR 0x0A] @ ''## '' @
        [CHR 0xE2, CHR 0x9A, CHR 0xA0, CHR 0xEF, CHR 0xB8, CHR 0x8F] @ '' Risk Factors'' @
        [CHR 0x0A] @ ''  '' @ [CHR 0xE2, CHR 0x9A, CHR 0xA0, CHR 0xEF, CHR 0xB8, CHR 0x8F] @
        '' Market volatility'' @ [CHR 0x0A, CHR 0x0A, CHR 0x0A] @
        ''============================================================'' @ [CHR 0x0A] @
        ''DISCLAIMER: This report is generated for informational purposes '' @ [CHR 0x0A] @
        ''only and should not be considered as financial advice. Always '' @ [CHR 0x0A] @
        ''conduct your own research and consult with qualified financial '' @ [CHR 0x0A] @
        ''professionals before making investment decisions.'' @ [CHR 0x0A] @
        ''============================================================'' @ [CHR 0x0A])) \<and>
   map_sum id final_report
     (report_generator_node acme_env
        (acme_state\<lparr>news_data := Some [], stock_data := Some failed_stock, analysis := None,
                    risk_factors := Some []\<rparr>)) =
     Inr (Some (
        [CHR 0x0A] @ ''============================================================'' @
        [CHR 0x0A] @ ''COMPANY INTELLIGENCE REPORT: ACME CORP'' @ [CHR 0x0A] @
        ''============================================================'' @
        [CHR 0x0A, CHR 0x0A, CHR 0x0A] @
        ''============================================================'' @ [CHR 0x0A] @
        ''DISCLAIMER: This report is generated for informational purposes '' @ [CHR 0x0A] @
        ''only and should not be considered as financial advice. Always '' @ [CHR 0x0A] @
        ''conduct your own research and consult with qualified financial '' @ [CHR 0x0A] @
        ''professionals before making investment decisions.'' @ [CHR 0x0A] @
        ''============================================================'' @ [CHR 0x0A])) \<and>
   (collect_data_directly env ''Acme Corp'' = Inr (news, stock) \<and>
    analyze_data_directly env ''Acme Corp'' (Some news) (Some stock) = Inr (summary, risks, level) \<and>
    format_stock_for_summary env (Some stock) = Inr text \<longrightarrow>
    (\<exists>result rest. run_intelligence_workflow env ''Acme Corp'' thread_id = Inr result \<and>
       error result = None \<and>
       final_report result = Some (
            [CHR 0x0A] @ ''============================================================'' @
            [CHR 0x0A] @ ''COMPANY INTELLIGENCE REPORT: ACME CORP'' @ [CHR 0x0A] @ rest)))"
proof (intro conjI impI, goal_cases)
  case 1
  note r = this
  then obtain stext where f: "format_stock_for_summary env (stock_data s) = Inr stext"
    using report_node_raises [of env s] by (cases "format_stock_for_summary env (stock_data s)") auto
  have stock_part: "(if stock_usable (stock_data s) then [stock_section stext] else []) =
      (if stock_data s = None \<or> stock_data s = Some [] \<or>
          ''error'' \<in> fst ` set (the (stock_data s))
       then [] else [stock_section (projr (format_stock_for_summary env (stock_data s)))])"
    by (auto simp: stock_usable_def f split: option.splits)
  have news_part: "(if truthy_list (news_data s) then [news_section env (the (news_data s))] else []) =
      (if news_data s = None \<or> news_data s = Some [] then []
       else [news_section env (the (news_data s))])"
    by (auto simp: truthy_list_def split: option.splits)
  have analysis_part: "(if truthy_str (analysis s) then [analysis_section (the (analysis s))] else []) =
      (if analysis s = None \<or> analysis s = Some [] then []
       else [analysis_section (the (analysis s))])"
    by (auto simp: truthy_str_def split: option.splits)
  have risk_part: "(if truthy_list (risk_factors s) then [risk_section (the (risk_factors s))] else []) =
      (if risk_factors s = None \<or> risk_factors s = Some [] then []
       else [risk_section (the (risk_factors s))])"
    by (auto simp: truthy_list_def split: option.splits)
  have "report_generator_node env s =
     Inr \<lparr>news_data = None, stock_data = None, analysis = None, risk_factors = None,
          final_report = Some (join nl
            ([header_section env (company_name s)] @
             (if stock_data s = None \<or> stock_data s = Some [] \<or>
                 ''error'' \<in> fst ` set (the (stock_data s))
              then [] else [stock_section (projr (format_stock_for_summary env (stock_data s)))]) @
             (if news_data s = None \<or> news_data s = Some [] then []
              else [news_section env (the (news_data s))]) @
             (if analysis s = None \<or> analysis s = Some [] then []
              else [analysis_section (the (analysis s))]) @
             (if risk_factors s = None \<or> risk_factors s = Some [] then []
              else [risk_section (the (risk_factors s))]) @
             [footer_section])),
          current_agent = Some ''report_generator'', error = None,
          messages = [AIMessage ''Final report generated'']\<rparr>"
    using report_node_returns [OF f]
    by (simp only: stock_part news_part analysis_part risk_part)
  with r have "u = \<lparr>news_data = None, stock_data = None, analysis = None, risk_factors = None,
          final_report = Some (join nl
            ([header_section env (company_name s)] @
             (if stock_data s = None \<or> stock_data s = Some [] \<or>
                 ''error'' \<in> fst ` set (the (stock_data s))
              then [] else [stock_section (projr (format_stock_for_summary env (stock_data s)))]) @
             (if news_data s = None \<or> news_data s = Some [] then []
              else [news_section env (the (news_data s))]) @
             (if analysis s = None \<or> analysis s = Some [] then []
              else [analysis_section (the (analysis s))]) @
             (if risk_factors s = None \<or> risk_factors s = Some [] then []
              else [risk_section (the (risk_factors s))]) @
             [footer_section])),
          current_agent = Some ''report_generator'', error = None,
          messages = [AIMessage ''Final report generated'']\<rparr>"
    by simp
  then show ?case
    by (simp only: nl_def update.simps)
next
  case 2
  show ?case by code_simp
next
  case 3
  show ?case by code_simp
next
  case 4
  note h = this
  from h obtain s2 where run: "run_intelligence_workflow env ''Acme Corp'' thread_id =
      report_generator_node env s2" and name: "company_name s2 = ''Acme Corp''"
      and stock: "stock_data s2 = Some stock"
    using run_success [of env "''Acme Corp''" news stock summary risks level thread_id] by blast
  from h stock have "format_stock_for_summary env (stock_data s2) = Inr text" by simp
  then obtain u mid where u: "report_generator_node env s2 = Inr u"
      "final_report u = Some (header_section env (company_name s2) @ mid @ footer_section)"
      "error u = None"
    using report_text_shape by blast
  have "final_report u = Some (header_section env ''Acme Corp'' @ mid @ footer_section)"
    by (simp add: u(2) name)
  then show ?case
    using run u(1) u(3)
    by (intro exI [of _ u]
        exI [of _ "''============================================================'' @ [CHR 0x0A] @ mid @
           footer_section"]) (simp add: header_section_literal upper_acme)
qed

text \<open>Claim C6, witness: the run for \<^verbatim>\<open>"Acme Corp"\<close> with collaborators that succeed.\<close>

theorem report_layout_witness:
  "collect_data_directly acme_env ''Acme Corp'' = Inr ([acme_article], acme_stock) \<and>
   analyze_data_directly acme_env ''Acme Corp'' (Some [acme_article]) (Some acme_stock) =
     Inr (''Steady growth.'', [''Market volatility''], ''LOW'') \<and>
   format_stock_for_summary acme_env (Some acme_stock) = Inr (
        ''Stock Performance Summary:'' @ [CHR 0x0A] @ ''- Current Price: $123 USD'' @ [CHR 0x0A] @
        ''- Daily Change: 2% (up)'' @ [CHR 0x0A] @ ''- Monthly Change: -3% (down)'' @ [CHR 0x0A] @
        ''- 52-Week Range: $100 - $150'' @ [CHR 0x0A] @ ''- Market Cap: N/A'' @ [CHR 0x0A] @
        ''- P/E Ratio: None'' @ [CHR 0x0A] @ ''- Sector: Technology'') \<and>
   (\<exists>result rest. run_intelligence_workflow acme_env ''Acme Corp'' ''default'' = Inr result \<and>
       error result = None \<and>
       final_report result = Some (
            [CHR 0x0A] @ ''============================================================'' @
            [CHR 0x0A] @ ''COMPANY INTELLIGENCE REPORT: ACME CORP'' @ [CHR 0x0A] @ rest))"
proof -
  have f: "format_stock_for_summary acme_env (Some acme_stock) = Inr (
        ''Stock Performance Summary:'' @ [CHR 0x0A] @ ''- Current Price: $123 USD'' @ [CHR 0x0A] @
        ''- Daily Change: 2% (up)'' @ [CHR 0x0A] @ ''- Monthly Change: -3% (down)'' @ [CHR 0x0A] @
        ''- 52-Week Range: $100 - $150'' @ [CHR 0x0A] @ ''- Market Cap: N/A'' @ [CHR 0x0A] @
        ''- P/E Ratio: None'' @ [CHR 0x0A] @ ''- Sector: Technology'')"
    by code_simp
  show ?thesis
    using report_layout [where env = acme_env and news = "[acme_article]" and stock = acme_stock
        and summary = "''Steady growth.''" and risks = "[''Market volatility'']"
        and level = "''LOW''" and thread_id = "''default''", THEN conjunct2, THEN conjunct2,
        THEN conjunct2] f
    by (simp add: acme_env_def)
qed

section \<open>When the report node returns\<close>




section \<open>What the run returns\<close>

text \<open>
  Claim C1 at a run in which every stage completes: the three nodes run in order and
  the collector's update holds the news and the stock data, but the dictionary the run
  returns is the update of the report node alone; it holds the report and the stage
  marker and none of the fields of the earlier stages.
\<close>

theorem run_returns_last_update_only:
  "map_sum id (map (map fst))
     (stream (create_intelligence_workflow acme_env) (create_initial_state ''Acme Corp'')) =
     Inr [[''data_collector''], [''analyst''], [''report_generator'']] \<and>
   news_data (data_collector_node acme_env (create_initial_state ''Acme Corp'')) = Some [acme_article] \<and>
   stock_data (data_collector_node acme_env (create_initial_state ''Acme Corp'')) = Some acme_stock \<and>
   (\<exists>result. run_intelligence_workflow acme_env ''Acme Corp'' ''default'' = Inr result \<and>
      final_report result \<noteq> None \<and> current_agent result = Some ''report_generator'' \<and>
      news_data result = None \<and> stock_data result = None \<and>
      analysis result = None \<and> risk_factors result = None)"
proof (rule conjI)
  show "map_sum id (map (map fst))
     (stream (create_intelligence_workflow acme_env) (create_initial_state ''Acme Corp'')) =
     Inr [[''data_collector''], [''analyst''], [''report_generator'']]"
    by code_simp
next
  have c: "news_data (data_collector_node acme_env (create_initial_state ''Acme Corp'')) = Some [acme_article] \<and>
   stock_data (data_collector_node acme_env (create_initial_state ''Acme Corp'')) = Some acme_stock"
    by (simp add: data_collector_node_def acme_env_def empty_update_def)
  have "map_sum id
      (\<lambda>r. (final_report r \<noteq> None, current_agent r, news_data r, stock_data r, analysis r,
            risk_factors r))
      (run_intelligence_workflow acme_env ''Acme Corp'' ''default'') =
    Inr (True, Some ''report_generator'', None, None, None, None)"
    by code_simp
  then have "\<exists>result. run_intelligence_workflow acme_env ''Acme Corp'' ''default'' = Inr result \<and>
      final_report result \<noteq> None \<and> current_agent result = Some ''report_generator'' \<and>
      news_data result = None \<and> stock_data result = None \<and>
      analysis result = None \<and> risk_factors result = None"
    by (cases "run_intelligence_workflow acme_env ''Acme Corp'' ''default''") auto
  with c show "news_data (data_collector_node acme_env (create_initial_state ''Acme Corp'')) = Some [acme_article] \<and>
   stock_data (data_collector_node acme_env (create_initial_state ''Acme Corp'')) = Some acme_stock \<and>
   (\<exists>result. run_intelligence_workflow acme_env ''Acme Corp'' ''default'' = Inr result \<and>
      final_report result \<noteq> None \<and> current_agent result = Some ''report_generator'' \<and>
      news_data result = None \<and> stock_data result = None \<and>
      analysis result = None \<and> risk_factors result = None)"
    by simp
qed

text \<open>
  Claim C2 at a run in which the analysis stage raises \<^verbatim>\<open>Exception("boom")\<close>: the
  report node does not run and the collector had produced the news, yet the run returns
  the update of the failed analyst node, which holds the error and none of the
  collector's fields.
\<close>

theorem analysis_failure_drops_collected_fields:
  "map_sum id (map (map fst))
     (stream (create_intelligence_workflow (analyze_fails ''boom''))
        (create_initial_state ''Acme Corp'')) =
     Inr [[''data_collector''], [''analyst'']] \<and>
   news_data (data_collector_node (analyze_fails ''boom'') (create_initial_state ''Acme Corp'')) =
     Some [acme_article] \<and>
   run_intelligence_workflow (analyze_fails ''boom'') ''Acme Corp'' ''default'' =
     Inr \<lparr>news_data = None, stock_data = None, analysis = None, risk_factors = None,
          final_report = None, current_agent = Some ''analyst'', error = Some ''boom'',
          messages = [AIMessage ''Error analyzing data: boom'']\<rparr>"
  by code_simp

text \<open>
  Claim C9 at a run in which the collector raises an exception whose message is empty:
  the router takes the empty error for no error, the analyst and the report node run,
  and the run returns a report although the collection stage failed.
\<close>

theorem report_after_failed_collection:
  "collect_data_directly (collect_fails []) ''Acme Corp'' = Inl [] \<and>
   map_sum id (map (map fst))
     (stream (create_intelligence_workflow (collect_fails [])) (create_initial_state ''Acme Corp'')) =
     Inr [[''data_collector''], [''analyst''], [''report_generator'']] \<and>
   (\<exists>result. run_intelligence_workflow (collect_fails []) ''Acme Corp'' ''default'' = Inr result \<and>
      final_report result \<noteq> None)"
proof (intro conjI)
  show "collect_data_directly (collect_fails []) ''Acme Corp'' = Inl []"
    by (simp add: collect_fails_def)
  show "map_sum id (map (map fst))
     (stream (create_intelligence_workflow (collect_fails [])) (create_initial_state ''Acme Corp'')) =
     Inr [[''data_collector''], [''analyst''], [''report_generator'']]"
    by code_simp
  have "map_sum id (\<lambda>r. final_report r \<noteq> None)
      (run_intelligence_workflow (collect_fails []) ''Acme Corp'' ''default'') = Inr True"
    by code_simp
  then show "\<exists>result. run_intelligence_workflow (collect_fails []) ''Acme Corp'' ''default'' = Inr result \<and>
      final_report result \<noteq> None"
    by (cases "run_intelligence_workflow (collect_fails []) ''Acme Corp'' ''default''") auto
qed

text \<open>
  A run either raises the \<^verbatim>\<open>TypeError\<close> of the report node or returns a dictionary
  that holds a report or an error.
\<close>

lemma report_node_cases:
  "report_generator_node env s = Inl TypeError \<or>
   (\<exists>u. report_generator_node env s = Inr u \<and> final_report u \<noteq> None \<and> error u = None)"
proof (cases "format_stock_for_summary env (stock_data s)")
  case (Inl e)
  then show ?thesis by (simp add: report_node_raises)
next
  case (Inr stext)
  then show ?thesis by (simp add: report_node_returns)
qed

lemma run_result_has_report_or_error:
  "run_intelligence_workflow env name thread_id = Inl TypeError \<or>
   (\<exists>result. run_intelligence_workflow env name thread_id = Inr result \<and>
     (final_report result \<noteq> None \<or> error result \<noteq> None))"
proof -
  define s0 where "s0 = create_initial_state name"
  define u1 where "u1 = data_collector_node env s0"
  define s1 where "s1 = merge s0 u1"
  define u2 where "u2 = analyst_node env s1"
  define s2 where "s2 = merge s1 u2"
  have e1: "error s1 = error u1"
    by (simp add: s1_def s0_def error_merge error_initial replace_field_def split: option.splits)
  have e2: "error s2 = replace_field (error s1) (error u2)"
    by (simp add: s2_def error_merge)
  have run: "run_intelligence_workflow env name thread_id =
      (if truthy_str (error s1) then Inr u1
       else if truthy_str (error s2) then Inr u2
       else report_generator_node env s2)"
    by (simp add: run_workflow Let_def s0_def u1_def s1_def u2_def s2_def)
  show ?thesis
  proof (cases "truthy_str (error s1)")
    case True
    then have "error u1 \<noteq> None" using e1 by (auto simp: truthy_str_def split: option.splits)
    with True run show ?thesis by simp
  next
    case False
    show ?thesis
    proof (cases "truthy_str (error s2)")
      case True
      with False e2 have "error u2 \<noteq> None"
        by (auto simp: replace_field_def truthy_str_def split: option.splits)
      with True False run show ?thesis by simp
    next
      case f2: False
      with False run have "run_intelligence_workflow env name thread_id =
          report_generator_node env s2"
        by simp
      with report_node_cases [of env s2] show ?thesis by auto
    qed
  qed
qed

text \<open>
  The exit code of \<^verbatim>\<open>main\<close> is 1 exactly when the run raises, and 0 whenever the run
  returns, with or without a report.
\<close>

lemma main_exit_code:
  "snd (main env company thread_id verbose) =
     (case run_intelligence_workflow env company thread_id of Inl e \<Rightarrow> 1 | Inr result \<Rightarrow> 0)"
  by (simp add: main_def split: sum.splits)

lemma main_exit_code_on_type_error:
  "main null_change_env ''Acme Corp'' ''default'' False = (Printed_error_running, 1)"
  by code_simp

end
